theory Spec2Isabelle
  imports Complex_Main
begin

section \<open>Request governance of the cinevault API\<close>

text \<open>
  The development embeds four parts of the Go program: the per-client rate limiter
  (\<^verbatim>\<open>rateLimit\<close> in the middleware file), the authentication and authorisation gates
  (\<^verbatim>\<open>authenticate\<close>, \<^verbatim>\<open>requireAuthenticatedUser\<close>, \<^verbatim>\<open>requireActivatedUser\<close>,
  \<^verbatim>\<open>requirePermission\<close>), the conditional updates of \<^verbatim>\<open>internal/data\<close>
  (\<^verbatim>\<open>MovieModel.Update\<close>, \<^verbatim>\<open>UserModel.Update\<close>) with the handler that calls them, and
  the shutdown sequence of \<^verbatim>\<open>serve\<close> with the \<^verbatim>\<open>background\<close> helper.
  Definitions come first, the lemmas and theorems follow.
\<close>

subsection \<open>Time\<close>

text \<open>
  A \<^verbatim>\<open>time.Time\<close> is the number of nanoseconds since Go's zero time, a
  \<^verbatim>\<open>time.Duration\<close> a number of nanoseconds.
\<close>

type_synonym time = int
type_synonym duration = int

definition Second :: duration where
  "Second = 1000000000"

definition Minute :: duration where
  "Minute = 60 * Second"

subsection \<open>The token bucket\<close>

text \<open>
  Modelled from the spec: the type \<^verbatim>\<open>rate.Limiter\<close> of \<^verbatim>\<open>golang.org/x/time/rate\<close>, whose
  source is not part of the repository. The spec describes it as a token-bucket state
  (capacity, refill rate, current tokens, last-refill time) that is created fresh with the
  sustained rate R and the burst capacity B, is refilled at the fixed rate up to its
  capacity, and on a request consumes one token if one is available and otherwise refuses
  without any side effect. Tokens are rationals here, where the library holds a
  \<^verbatim>\<open>float64\<close>.
\<close>

record limiter =
  lim_limit :: rat
  lim_burst :: int
  lim_tokens :: rat
  lim_last :: time

definition NewLimiter :: "rat \<Rightarrow> int \<Rightarrow> limiter" where
  "NewLimiter r b = \<lparr>lim_limit = r, lim_burst = b, lim_tokens = of_int b, lim_last = 0\<rparr>"

definition advance :: "time \<Rightarrow> limiter \<Rightarrow> rat" where
  "advance t lm =
     (let elapsed = max 0 (t - lim_last lm);
          delta = lim_limit lm * (of_int elapsed / of_int Second)
      in min (of_int (lim_burst lm)) (lim_tokens lm + delta))"

definition Allow :: "time \<Rightarrow> limiter \<Rightarrow> bool \<times> limiter" where
  "Allow t lm =
     (let tokens = advance t lm
      in if 1 \<le> tokens then (True, lm\<lparr>lim_tokens := tokens - 1, lim_last := t\<rparr>)
         else (False, lm))"

subsection \<open>The client registry of \<^verbatim>\<open>rateLimit\<close>\<close>

record client =
  limiter :: limiter
  lastSeen :: time

type_synonym clients = "string \<rightharpoonup> client"

record limiter_config =
  enabled :: bool
  rps :: rat
  burst :: int

text \<open>
  The locked section of the request path: the entry of \<open>ip\<close> is created when it is
  absent, its \<open>lastSeen\<close> is set to the clock, and its limiter is asked. The result
  is the decision and the registry after the request. \<open>now\<close> is the clock while the
  lock is held: the reading that is stored in \<open>lastSeen\<close> and the reading that
  \<^verbatim>\<open>Allow\<close> takes are one instant. With the limiter switched off the registry is not
  touched.
\<close>

definition admit :: "limiter_config \<Rightarrow> time \<Rightarrow> string \<Rightarrow> clients \<Rightarrow> bool \<times> clients" where
  "admit cfg now ip cs =
     (if enabled cfg then
        (let c0 = (case cs ip of
                     None \<Rightarrow> \<lparr>limiter = NewLimiter (rps cfg) (burst cfg), lastSeen = 0\<rparr>
                   | Some c \<Rightarrow> c);
             c1 = c0\<lparr>lastSeen := now\<rparr>;
             (ok, lim') = Allow now (limiter c1)
         in (ok, cs(ip \<mapsto> c1\<lparr>limiter := lim'\<rparr>)))
      else (True, cs))"


text \<open>
  One pass of the cleanup goroutine over the registry, under the lock: an entry is deleted
  when \<^verbatim>\<open>time.Since(client.lastSeen) > 3*time.Minute\<close>.
\<close>

definition sweep :: "time \<Rightarrow> clients \<Rightarrow> clients" where
  "sweep now cs =
     (\<lambda>ip. case cs ip of
              None \<Rightarrow> None
            | Some c \<Rightarrow> if now - lastSeen c > 3 * Minute then None else Some c)"

subsection \<open>Errors, validation, tokens\<close>

text \<open>
  Go's \<^verbatim>\<open>error\<close> values: the sentinels the program compares with \<^verbatim>\<open>errors.Is\<close>, and any
  other error, known by its message.
\<close>

datatype error =
    ErrRecordNotFound
  | ErrEditConflict
  | ErrDuplicateEmail
  | sql_ErrNoRows
  | Error string

text \<open>\<^verbatim>\<open>validator.Validator\<close>: the map of field errors, kept as an association list.\<close>

type_synonym Validator = "(string \<times> string) list"

definition New :: Validator where
  "New = []"

definition Valid :: "Validator \<Rightarrow> bool" where
  "Valid v = (length v = 0)"

definition AddError :: "string \<Rightarrow> string \<Rightarrow> Validator \<Rightarrow> Validator" where
  "AddError key message v = (if map_of v key = None then v @ [(key, message)] else v)"

definition Check :: "bool \<Rightarrow> string \<Rightarrow> string \<Rightarrow> Validator \<Rightarrow> Validator" where
  "Check ok key message v = (if \<not> ok then AddError key message v else v)"

definition ScopeAuthentication :: string where
  "ScopeAuthentication = ''authentication''"

text \<open>\<^verbatim>\<open>len\<close> of a Go string counts bytes, as \<open>length\<close> does on a \<open>string\<close>.\<close>

definition ValidateTokenPlaintext :: "string \<Rightarrow> Validator \<Rightarrow> Validator" where
  "ValidateTokenPlaintext tokenPlaintext v =
     Check (length tokenPlaintext = 26) ''token'' ''must be 26 bytes long''
       (Check (tokenPlaintext \<noteq> []) ''token'' ''must be provided'' v)"

text \<open>
  The alphabet of \<^verbatim>\<open>base32.StdEncoding\<close>, with which \<^verbatim>\<open>generateToken\<close> writes the 16 random
  bytes of a token as 26 characters.
\<close>

definition base32_alphabet :: string where
  "base32_alphabet = ''ABCDEFGHIJKLMNOPQRSTUVWXYZ234567''"

text \<open>
  The shape the spec gives to a token: 26 characters, each of the restricted alphabet.
  This definition follows the spec's words; the program's check is
  \<open>ValidateTokenPlaintext\<close>.
\<close>

definition spec_token_shape :: "string \<Rightarrow> bool" where
  "spec_token_shape t = (length t = 26 \<and> list_all (\<lambda>c. c \<in> set base32_alphabet) t)"

text \<open>\<^verbatim>\<open>strings.Split(s, sep)\<close> for a separator of one byte.\<close>

fun Split :: "string \<Rightarrow> char \<Rightarrow> string list" where
  "Split [] sep = [[]]"
| "Split (c # cs) sep =
     (if c = sep then [] # Split cs sep
      else (case Split cs sep of
              [] \<Rightarrow> [[c]]
            | p # ps \<Rightarrow> (c # p) # ps))"

subsection \<open>Users and the anonymous sentinel\<close>

record password =
  plaintext :: "string option"
  hash :: "string option"

record User =
  ID :: int
  CreatedAt :: time
  Name :: string
  Email :: string
  Password :: password
  Activated :: bool
  Version :: int

text \<open>
  A \<^verbatim>\<open>*User\<close> is an address in the list of the allocated \<^verbatim>\<open>User\<close> structs. The package
  variable \<^verbatim>\<open>AnonymousUser = &User{}\<close> is allocated first, so it is address 0 and the
  struct there has the zero value in every field. The list of a running program starts as
  \<open>initial_heap\<close> and grows at its end, so a new struct never gets the sentinel's
  address.
\<close>

type_synonym user_ptr = nat

definition zero_User :: User where
  "zero_User = \<lparr>ID = 0, CreatedAt = 0, Name = [], Email = [],
     Password = \<lparr>plaintext = None, hash = None\<rparr>, Activated = False, Version = 0\<rparr>"

definition AnonymousUser :: user_ptr where
  "AnonymousUser = 0"

definition initial_heap :: "User list" where
  "initial_heap = [zero_User]"

definition new_User :: "User list \<Rightarrow> User \<Rightarrow> user_ptr \<times> User list" where
  "new_User h u = (length h, h @ [u])"

definition deref :: "User list \<Rightarrow> user_ptr \<Rightarrow> User option" where
  "deref h p = (if p < length h then Some (h ! p) else None)"

definition IsAnonymous :: "user_ptr \<Rightarrow> bool" where
  "IsAnonymous u = (u = AnonymousUser)"

text \<open>\<^verbatim>\<open>Permissions.Include\<close>: the loop over the slice.\<close>

fun Include :: "string list \<Rightarrow> string \<Rightarrow> bool" where
  "Include [] code = False"
| "Include (p # ps) code = (if code = p then True else Include ps code)"

subsection \<open>Movies\<close>

record Movie =
  ID :: int
  CreatedAt :: time
  Title :: string
  Year :: int
  Runtime :: int
  Genres :: "string list option"
  Version :: int

text \<open>A row of the table \<^verbatim>\<open>movies\<close>, keyed by its \<^verbatim>\<open>id\<close> column.\<close>

record movie_row =
  created_at :: time
  title :: string
  year :: int
  runtime :: int
  genres :: "string list option"
  version :: int

type_synonym movies_table = "int \<rightharpoonup> movie_row"

subsection \<open>Requests, the response writer and the collaborators\<close>

text \<open>What \<^verbatim>\<open>updateMovieHandler\<close> decodes from the body: absent keys are \<^verbatim>\<open>nil\<close>.\<close>

record movie_input =
  in_Title :: "string option"
  in_Year :: "int option"
  in_Runtime :: "int option"
  in_Genres :: "string list option"

text \<open>
  A request, as far as the embedded handlers read it: the client address that
  \<^verbatim>\<open>realip.FromRequest\<close> returns, the \<^verbatim>\<open>Authorization\<close> header (empty when absent), the
  \<^verbatim>\<open>id\<close> parameter of the route, the outcome of \<^verbatim>\<open>readJSON\<close> on the body, and the
  principal stored in the request context.
\<close>

record request =
  RemoteIP :: string
  Authorization :: string
  id_param :: string
  json_body :: "error + movie_input"
  ctx_user :: "user_ptr option"

text \<open>
  Modelled from the spec: \<^verbatim>\<open>contextSetUser\<close> and \<^verbatim>\<open>contextGetUser\<close>, whose file is not among
  the sources. The spec says that the principal is attached to the request for the duration
  of its processing: setting stores the pointer in the request, getting reads it back. A
  request that carries no principal has \<open>None\<close>, and the gates below abort on it.
\<close>

definition contextSetUser :: "request \<Rightarrow> user_ptr \<Rightarrow> request" where
  "contextSetUser r user = r\<lparr>ctx_user := Some user\<rparr>"

definition contextGetUser :: "request \<Rightarrow> user_ptr option" where
  "contextGetUser r = ctx_user r"

datatype message = Text string | Fields "(string \<times> string) list"

datatype envelope = error_envelope message | movie_envelope Movie

datatype call = GetForToken string string | GetAllForUser int

datatype Level = LevelInfo | LevelError | LevelFatal

text \<open>
  Everything a handler reads or changes besides its request: the clock, the rate limiter's
  registry, the allocated users, the table of movies, the calls made to the credential and
  permission lookups, the log, the response writer (its headers, and the status and body
  of each response written), and the counter of the wait group \<^verbatim>\<open>app.wg\<close>.
  \<open>panicked\<close> holds the value of a panic that is unwinding the handler.
\<close>

record world =
  clock :: time
  registry :: clients
  heap :: "User list"
  movies :: movies_table
  calls :: "call list"
  logged :: "(Level \<times> string) list"
  header :: "string \<rightharpoonup> string"
  written :: "(nat \<times> envelope) list"
  panicked :: "string option"
  wg :: nat

type_synonym handler = "request \<Rightarrow> world \<Rightarrow> world"

text \<open>
  The application: its limiter settings, and the two lookups of \<^verbatim>\<open>internal/data\<close> that
  the gates call, \<^verbatim>\<open>Users.GetForToken(scope, token)\<close> and
  \<^verbatim>\<open>Permissions.GetAllForUser(id)\<close>, as the functions they are to the caller.
\<close>

record application =
  config_limiter :: limiter_config
  Users_GetForToken :: "string \<Rightarrow> string \<Rightarrow> error + User"
  Permissions_GetAllForUser :: "int \<Rightarrow> error + string list"

definition Error_message :: "error \<Rightarrow> string" where
  "Error_message e =
     (case e of
        ErrRecordNotFound \<Rightarrow> ''record not found''
      | ErrEditConflict \<Rightarrow> ''edit conflict''
      | ErrDuplicateEmail \<Rightarrow> ''duplicate email''
      | sql_ErrNoRows \<Rightarrow> ''sql: no rows in result set''
      | Error s \<Rightarrow> s)"

definition panic :: "string \<Rightarrow> world \<Rightarrow> world" where
  "panic v w = w\<lparr>panicked := Some v\<rparr>"

subsection \<open>Responses (\<^verbatim>\<open>errors.go\<close>)\<close>

text \<open>
  \<^verbatim>\<open>writeJSON\<close> with no extra headers. Marshalling a message or a movie does not fail, so
  the error branch of \<^verbatim>\<open>errorResponse\<close> is not taken.
\<close>

definition writeJSON :: "nat \<Rightarrow> envelope \<Rightarrow> world \<Rightarrow> world" where
  "writeJSON status data w =
     w\<lparr>header := (header w)(''Content-Type'' \<mapsto> ''application/json''),
       written := written w @ [(status, data)]\<rparr>"

definition PrintError :: "string \<Rightarrow> world \<Rightarrow> world" where
  "PrintError msg w = w\<lparr>logged := logged w @ [(LevelError, msg)]\<rparr>"

definition logError :: "request \<Rightarrow> error \<Rightarrow> world \<Rightarrow> world" where
  "logError r err w = PrintError (Error_message err) w"

definition errorResponse :: "request \<Rightarrow> nat \<Rightarrow> message \<Rightarrow> world \<Rightarrow> world" where
  "errorResponse r status msg w = writeJSON status (error_envelope msg) w"

definition serverErrorResponse :: "request \<Rightarrow> error \<Rightarrow> world \<Rightarrow> world" where
  "serverErrorResponse r err w =
     errorResponse r 500
       (Text ''the server encountered a problem and could not process your request'')
       (logError r err w)"

definition notFoundResponse :: handler where
  "notFoundResponse r w =
     errorResponse r 404 (Text ''the requested resource could not be found'') w"

definition badRequestResponse :: "request \<Rightarrow> error \<Rightarrow> world \<Rightarrow> world" where
  "badRequestResponse r err w = errorResponse r 400 (Text (Error_message err)) w"

definition failedValidationResponse :: "request \<Rightarrow> Validator \<Rightarrow> world \<Rightarrow> world" where
  "failedValidationResponse r errors w = errorResponse r 422 (Fields errors) w"

definition editConflictResponse :: handler where
  "editConflictResponse r w =
     errorResponse r 409
       (Text ''unable to update the record due to an edit conflict, please try again'') w"

definition rateLimitExceededResponse :: handler where
  "rateLimitExceededResponse r w = errorResponse r 429 (Text ''rate limit exceeded'') w"

definition invalidAuthenticationTokenResponse :: handler where
  "invalidAuthenticationTokenResponse r w =
     errorResponse r 401 (Text ''invalid or missing authentication token'')
       (w\<lparr>header := (header w)(''WWW-Authenticate'' \<mapsto> ''Bearer'')\<rparr>)"

definition authenticationRequiredResponse :: handler where
  "authenticationRequiredResponse r w =
     errorResponse r 401 (Text ''you must be authenticated to access this resource'') w"

definition inactiveAccountResponse :: handler where
  "inactiveAccountResponse r w =
     errorResponse r 403
       (Text ''your user account must be activated to access this resource'') w"

definition notPermittedResponse :: handler where
  "notPermittedResponse r w =
     errorResponse r 403
       (Text ''your user account doesn't have the necessary permissions to access this resource'') w"

subsection \<open>The middleware\<close>

text \<open>\<^verbatim>\<open>rateLimit\<close>: the request path around the locked section \<open>admit\<close>.\<close>

definition rateLimit :: "application \<Rightarrow> handler \<Rightarrow> handler" where
  "rateLimit app next r w =
     (let (ok, cs) = admit (config_limiter app) (clock w) (RemoteIP r) (registry w);
          w1 = w\<lparr>registry := cs\<rparr>
      in if \<not> ok then rateLimitExceededResponse r w1 else next r w1)"

definition authenticate :: "application \<Rightarrow> handler \<Rightarrow> handler" where
  "authenticate app next r w =
     (let w1 = w\<lparr>header := (header w)(''Vary'' \<mapsto> ''Authorization'')\<rparr>;
          authorizationHeader = Authorization r
      in if authorizationHeader = [] then next (contextSetUser r AnonymousUser) w1
         else
           (case Split authorizationHeader (CHR '' '') of
              [scheme, token] \<Rightarrow>
                if scheme \<noteq> ''Bearer'' then invalidAuthenticationTokenResponse r w1
                else if \<not> Valid (ValidateTokenPlaintext token New)
                then invalidAuthenticationTokenResponse r w1
                else
                  (let w2 = w1\<lparr>calls := calls w1 @ [GetForToken ScopeAuthentication token]\<rparr>
                   in case Users_GetForToken app ScopeAuthentication token of
                        Inl err \<Rightarrow>
                          (if err = ErrRecordNotFound
                           then invalidAuthenticationTokenResponse r w2
                           else serverErrorResponse r err w2)
                      | Inr user \<Rightarrow>
                          (let (p, h) = new_User (heap w2) user
                           in next (contextSetUser r p) (w2\<lparr>heap := h\<rparr>)))
            | _ \<Rightarrow> invalidAuthenticationTokenResponse r w1))"

definition requireAuthenticatedUser :: "handler \<Rightarrow> handler" where
  "requireAuthenticatedUser next r w =
     (case contextGetUser r of
        None \<Rightarrow> panic ''missing user value in request context'' w
      | Some user \<Rightarrow>
          if IsAnonymous user then authenticationRequiredResponse r w else next r w)"

text \<open>
  Reading a field through the pointer panics when the pointer is \<^verbatim>\<open>nil\<close>; here, when no
  struct is allocated at the address.
\<close>

definition requireActivatedUser :: "handler \<Rightarrow> handler" where
  "requireActivatedUser next =
     requireAuthenticatedUser
       (\<lambda>r w. case contextGetUser r of
                 None \<Rightarrow> panic ''missing user value in request context'' w
               | Some user \<Rightarrow>
                   (case deref (heap w) user of
                      None \<Rightarrow> panic ''invalid memory address or nil pointer dereference'' w
                    | Some u \<Rightarrow>
                        if \<not> Activated u then inactiveAccountResponse r w else next r w))"

definition requirePermission :: "application \<Rightarrow> string \<Rightarrow> handler \<Rightarrow> handler" where
  "requirePermission app code next =
     requireActivatedUser
       (\<lambda>r w. case contextGetUser r of
                 None \<Rightarrow> panic ''missing user value in request context'' w
               | Some user \<Rightarrow>
                   (case deref (heap w) user of
                      None \<Rightarrow> panic ''invalid memory address or nil pointer dereference'' w
                    | Some u \<Rightarrow>
                        (let w1 = w\<lparr>calls := calls w @ [GetAllForUser (User.ID u)]\<rparr>
                         in case Permissions_GetAllForUser app (User.ID u) of
                              Inl err \<Rightarrow> serverErrorResponse r err w1
                            | Inr permissions \<Rightarrow>
                                if \<not> Include permissions code then notPermittedResponse r w1
                                else next r w1)))"

subsection \<open>The conditional updates of \<^verbatim>\<open>internal/data\<close>\<close>

text \<open>
  The database is the table it holds. A statement either runs as its SQL text says, or the
  driver reports an error and the table stays as it was: the lost connection, the deadline
  of three seconds, a constraint or a range violation that PostgreSQL raises (its integer
  arithmetic raises on overflow; it does not wrap). \<open>fault\<close> is the message of such an
  error, \<open>None\<close> when the statement runs.
\<close>

definition fits32 :: "int \<Rightarrow> bool" where
  "fits32 x = (- 2147483648 \<le> x \<and> x \<le> 2147483647)"

definition scan_range_error :: error where
  "scan_range_error = Error ''sql: Scan error: converting driver.Value type int64 to a int32: value out of range''"

text \<open>
  \<^verbatim>\<open>SELECT ... FROM movies WHERE id = $1\<close>, scanned into a \<^verbatim>\<open>Movie\<close>, whose \<^verbatim>\<open>Year\<close>,
  \<^verbatim>\<open>Runtime\<close> and \<^verbatim>\<open>Version\<close> are \<^verbatim>\<open>int32\<close>.
\<close>

definition MovieModel_Get :: "string option \<Rightarrow> movies_table \<Rightarrow> int \<Rightarrow> error + Movie" where
  "MovieModel_Get fault tbl mid =
     (if mid < 1 then Inl ErrRecordNotFound
      else
        (case fault of
           Some msg \<Rightarrow> Inl (Error msg)
         | None \<Rightarrow>
             (case tbl mid of
                None \<Rightarrow> Inl ErrRecordNotFound
              | Some row \<Rightarrow>
                  if fits32 (year row) \<and> fits32 (runtime row) \<and> fits32 (version row)
                  then Inr \<lparr>ID = mid, CreatedAt = created_at row, Title = title row,
                            Year = year row, Runtime = runtime row, Genres = genres row,
                            Version = version row\<rparr>
                  else Inl scan_range_error)))"

text \<open>
  \<^verbatim>\<open>UPDATE movies SET title = $1, year = $2, runtime = $3, genres = $4, version = version + 1
  WHERE id = $5 AND version = $6 RETURNING version\<close>: the returned version, or
  \<^verbatim>\<open>sql.ErrNoRows\<close> when no row has that id and that version.
\<close>

definition update_movies :: "string option \<Rightarrow> Movie \<Rightarrow> movies_table \<Rightarrow> (error + int) \<times> movies_table" where
  "update_movies fault movie tbl =
     (case fault of
        Some msg \<Rightarrow> (Inl (Error msg), tbl)
      | None \<Rightarrow>
          (case tbl (Movie.ID movie) of
             None \<Rightarrow> (Inl sql_ErrNoRows, tbl)
           | Some row \<Rightarrow>
               if version row = Movie.Version movie
               then (Inr (version row + 1),
                     tbl(Movie.ID movie \<mapsto>
                       row\<lparr>title := Title movie, year := Year movie, runtime := Runtime movie,
                           genres := Genres movie, version := version row + 1\<rparr>))
               else (Inl sql_ErrNoRows, tbl)))"

definition MovieModel_Update :: "string option \<Rightarrow> Movie \<Rightarrow> movies_table \<Rightarrow> (error + Movie) \<times> movies_table" where
  "MovieModel_Update fault movie tbl =
     (let (res, tbl') = update_movies fault movie tbl
      in case res of
           Inl err \<Rightarrow> (if err = sql_ErrNoRows then Inl ErrEditConflict else Inl err, tbl')
         | Inr v \<Rightarrow>
             (if fits32 v then Inr (movie\<lparr>Movie.Version := v\<rparr>) else Inl scan_range_error, tbl'))"

record user_row =
  u_created_at :: time
  u_name :: string
  u_email :: string
  u_password_hash :: "string option"
  u_activated :: bool
  u_version :: int

type_synonym users_table = "int \<rightharpoonup> user_row"

text \<open>
  \<^verbatim>\<open>UPDATE users SET name = $1, email = $2, password_hash = $3, activated = $4,
  version = version + 1 WHERE id = $5 AND version = $6 RETURNING version\<close>. The violation of
  the unique constraint on the email column is one of the faults.
\<close>

definition update_users :: "string option \<Rightarrow> User \<Rightarrow> users_table \<Rightarrow> (error + int) \<times> users_table" where
  "update_users fault user tbl =
     (case fault of
        Some msg \<Rightarrow> (Inl (Error msg), tbl)
      | None \<Rightarrow>
          (case tbl (User.ID user) of
             None \<Rightarrow> (Inl sql_ErrNoRows, tbl)
           | Some row \<Rightarrow>
               if u_version row = User.Version user
               then (Inr (u_version row + 1),
                     tbl(User.ID user \<mapsto>
                       row\<lparr>u_name := Name user, u_email := Email user,
                           u_password_hash := hash (Password user),
                           u_activated := Activated user, u_version := u_version row + 1\<rparr>))
               else (Inl sql_ErrNoRows, tbl)))"

definition users_email_key_violation :: string where
  "users_email_key_violation =
     ''pq: duplicate key value violates unique constraint '' @ [CHR 0x22] @ ''users_email_key'' @ [CHR 0x22]"

text \<open>
  \<^verbatim>\<open>User.Version\<close> is an \<^verbatim>\<open>int\<close>, as wide as the widest integer column, so the scan of the
  returned version has no range error.
\<close>

definition UserModel_Update :: "string option \<Rightarrow> User \<Rightarrow> users_table \<Rightarrow> (error + User) \<times> users_table" where
  "UserModel_Update fault user tbl =
     (let (res, tbl') = update_users fault user tbl
      in case res of
           Inl err \<Rightarrow>
             (if Error_message err = users_email_key_violation then Inl ErrDuplicateEmail
              else if err = sql_ErrNoRows then Inl ErrEditConflict
              else Inl err, tbl')
         | Inr v \<Rightarrow> (Inr (user\<lparr>User.Version := v\<rparr>), tbl'))"

subsection \<open>\<^verbatim>\<open>updateMovieHandler\<close>\<close>

text \<open>\<^verbatim>\<open>strconv.ParseInt(s, 10, 64)\<close>: an optional sign, then decimal digits, within 64 bits.\<close>

fun digits_value :: "string \<Rightarrow> int \<Rightarrow> int option" where
  "digits_value [] acc = Some acc"
| "digits_value (c # cs) acc =
     (if 48 \<le> (of_char c :: int) \<and> (of_char c :: int) \<le> 57
      then digits_value cs (acc * 10 + (of_char c - 48))
      else None)"

definition ParseInt :: "string \<Rightarrow> int option" where
  "ParseInt s =
     (case s of
        [] \<Rightarrow> None
      | c # cs \<Rightarrow>
          (let neg = (c = CHR ''-'');
               rest = (if c = CHR ''+'' \<or> c = CHR ''-'' then cs else s)
           in if rest = [] then None
              else
                (case digits_value rest 0 of
                   None \<Rightarrow> None
                 | Some un \<Rightarrow>
                     if \<not> neg \<and> 9223372036854775808 \<le> un then None
                     else if neg \<and> 9223372036854775808 < un then None
                     else Some (if neg then - un else un))))"

definition readIDParam :: "request \<Rightarrow> error + int" where
  "readIDParam r =
     (case ParseInt (id_param r) of
        None \<Rightarrow> Inl (Error ''invalid id parameter'')
      | Some mid \<Rightarrow> if mid < 1 then Inl (Error ''invalid id parameter'') else Inr mid)"

definition Unique :: "string list \<Rightarrow> bool" where
  "Unique values = (length values = length (remdups values))"

text \<open>\<open>this_year\<close> is \<^verbatim>\<open>int32(time.Now().Year())\<close>; the length of a \<^verbatim>\<open>nil\<close> slice is 0.\<close>

definition ValidateMovie :: "int \<Rightarrow> Movie \<Rightarrow> Validator \<Rightarrow> Validator" where
  "ValidateMovie this_year movie v =
     (let gs = (case Genres movie of None \<Rightarrow> [] | Some g \<Rightarrow> g);
          v1 = Check (Title movie \<noteq> []) ''title'' ''must be provided'' v;
          v2 = Check (length (Title movie) \<le> 500) ''title'' ''must not be more than 500 bytes long'' v1;
          v3 = Check (Year movie \<noteq> 0) ''year'' ''must be provided'' v2;
          v4 = Check (Year movie \<ge> 1888) ''year'' ''must be greater than 1888'' v3;
          v5 = Check (Year movie \<le> this_year) ''year'' ''must not be in the future'' v4;
          v6 = Check (Runtime movie \<noteq> 0) ''runtime'' ''must be provided'' v5;
          v7 = Check (Runtime movie > 0) ''runtime'' ''must be a positive integer'' v6;
          v8 = Check (Genres movie \<noteq> None) ''genres'' ''must be provided'' v7;
          v9 = Check (length gs \<ge> 1) ''genres'' ''must contain at least 1 genre'' v8;
          v10 = Check (length gs \<le> 5) ''genres'' ''must not contain more than 5 genres'' v9
      in Check (Unique gs) ''genres'' ''must not contain duplicate values'' v10)"

text \<open>
  What surrounds one run of the handler: the faults of its two statements, the year, and
  \<open>concurrent\<close>, the effect on the table of the writes that other requests commit between
  this handler's read and its write.
\<close>

record db_env =
  get_fault :: "string option"
  update_fault :: "string option"
  concurrent :: "movies_table \<Rightarrow> movies_table"
  this_year :: int

definition apply_input :: "movie_input \<Rightarrow> Movie \<Rightarrow> Movie" where
  "apply_input input movie =
     (let m1 = (case in_Title input of None \<Rightarrow> movie | Some t \<Rightarrow> movie\<lparr>Title := t\<rparr>);
          m2 = (case in_Year input of None \<Rightarrow> m1 | Some y \<Rightarrow> m1\<lparr>Year := y\<rparr>);
          m3 = (case in_Runtime input of None \<Rightarrow> m2 | Some rt \<Rightarrow> m2\<lparr>Runtime := rt\<rparr>)
      in (case in_Genres input of None \<Rightarrow> m3 | Some g \<Rightarrow> m3\<lparr>Genres := Some g\<rparr>))"

definition updateMovieHandler :: "db_env \<Rightarrow> handler" where
  "updateMovieHandler env r w =
     (case readIDParam r of
        Inl err \<Rightarrow> notFoundResponse r w
      | Inr mid \<Rightarrow>
          (case MovieModel_Get (get_fault env) (movies w) mid of
             Inl err \<Rightarrow>
               (if err = ErrRecordNotFound then notFoundResponse r w
                else serverErrorResponse r err w)
           | Inr movie0 \<Rightarrow>
               (case json_body r of
                  Inl err \<Rightarrow> badRequestResponse r err w
                | Inr input \<Rightarrow>
                    (let movie = apply_input input movie0;
                         v = ValidateMovie (this_year env) movie New
                     in if \<not> Valid v then failedValidationResponse r v w
                        else
                          (let (res, tbl) =
                                 MovieModel_Update (update_fault env) movie
                                   (concurrent env (movies w));
                               w1 = w\<lparr>movies := tbl\<rparr>
                           in case res of
                                Inl err \<Rightarrow>
                                  (if err = ErrEditConflict then editConflictResponse r w1
                                   else serverErrorResponse r err w1)
                              | Inr movie' \<Rightarrow> writeJSON 200 (movie_envelope movie') w1)))))"

subsection \<open>Background tasks (\<^verbatim>\<open>background\<close>)\<close>

text \<open>
  A task is the function handed to \<^verbatim>\<open>background\<close>: it changes the world and then either
  returns or panics with a value.
\<close>

datatype completion = Returns | Panics string

type_synonym task = "world \<Rightarrow> world \<times> completion"

text \<open>\<^verbatim>\<open>wg.Done()\<close> panics when the counter would become negative.\<close>

definition wg_Done :: "world \<Rightarrow> world \<times> completion" where
  "wg_Done w =
     (if wg w = 0 then (w, Panics ''sync: negative WaitGroup counter'')
      else (w\<lparr>wg := wg w - 1\<rparr>, Returns))"

text \<open>
  The caller's part of \<^verbatim>\<open>background\<close> is \<^verbatim>\<open>app.wg.Add(1)\<close> and the \<^verbatim>\<open>go\<close> statement.
\<close>

definition background :: "task \<Rightarrow> world \<Rightarrow> world" where
  "background fn w = w\<lparr>wg := wg w + 1\<rparr>"

text \<open>
  The goroutine, from its start to its end, with the way it ends. Its two deferred calls
  run in the reverse order of their \<^verbatim>\<open>defer\<close> statements, when \<^verbatim>\<open>fn\<close> returns and when
  it panics: first the function that calls \<^verbatim>\<open>recover\<close>, which ends a panic and logs its
  value, then \<^verbatim>\<open>app.wg.Done\<close>. A task that never ends is not a value of \<open>task\<close>.
\<close>

definition background_goroutine :: "task \<Rightarrow> world \<Rightarrow> world \<times> completion" where
  "background_goroutine fn w =
     (let (w1, c) = fn w;
          w2 = (case c of Returns \<Rightarrow> w1 | Panics v \<Rightarrow> PrintError v w1)
      in wg_Done w2)"

subsection \<open>Shutdown (\<^verbatim>\<open>serve\<close>)\<close>

text \<open>
  \<^verbatim>\<open>serve\<close> runs two threads: the caller, blocked in \<^verbatim>\<open>srv.ListenAndServe()\<close> and then in
  the receive on the unbuffered channel \<^verbatim>\<open>shutdownError\<close>, and the goroutine that waits for
  the signal. Each has a program counter.
\<close>

datatype main_pc =
    ListenAndServe
  | ReceiveShutdownError
  | Returned "error option"

datatype goroutine_pc =
    AwaitSignal
  | InShutdown
  | SendError error
  | WgWait
  | SendNil
  | Finished

record serve_state =
  main :: main_pc
  goroutine :: goroutine_pc
  outstanding :: nat
  shutting_down :: bool
  shutdown_result :: "error option option"
  drained :: bool
  infos :: "string list"

text \<open>
  What the scheduler and the surroundings can do next: the signal arrives;
  \<^verbatim>\<open>srv.Shutdown\<close> returns, with an error or without; \<^verbatim>\<open>ListenAndServe\<close> returns
  \<^verbatim>\<open>http.ErrServerClosed\<close> or fails with another error; a send and the receive on the
  channel meet; \<^verbatim>\<open>app.wg.Wait()\<close> returns; a handler registers a background task; a
  background task ends.
\<close>

datatype event =
    Signal
  | ShutdownReturns "error option"
  | ServerClosed
  | ListenFails error
  | Handoff
  | WaitReturns
  | TaskSpawned
  | TaskDone

definition serve_init :: "nat \<Rightarrow> serve_state" where
  "serve_init n =
     \<lparr>main = ListenAndServe, goroutine = AwaitSignal, outstanding = n, shutting_down = False,
      shutdown_result = None, drained = False, infos = [''starting server'']\<rparr>"

text \<open>
  One step; \<open>None\<close> when the event cannot happen in the state. Once \<^verbatim>\<open>serve\<close> has
  returned nothing happens any more: \<^verbatim>\<open>main\<close> returns, or logs the error as fatal and
  exits. \<^verbatim>\<open>ListenAndServe\<close> returns \<^verbatim>\<open>http.ErrServerClosed\<close> as soon as \<^verbatim>\<open>Shutdown\<close> has
  been called, and another error only before. \<^verbatim>\<open>Shutdown\<close> returns \<^verbatim>\<open>nil\<close> when no
  connection is active any more, so no handler registers a task after that.
\<close>

definition step :: "event \<Rightarrow> serve_state \<Rightarrow> serve_state option" where
  "step e s =
     (case main s of
        Returned r \<Rightarrow> None
      | _ \<Rightarrow>
        (case e of
           Signal \<Rightarrow>
             if goroutine s = AwaitSignal
             then Some (s\<lparr>goroutine := InShutdown, shutting_down := True,
                          infos := infos s @ [''caught signal'']\<rparr>)
             else None
         | ShutdownReturns res \<Rightarrow>
             if goroutine s = InShutdown
             then (case res of
                     Some err \<Rightarrow> Some (s\<lparr>goroutine := SendError err, shutdown_result := Some res\<rparr>)
                   | None \<Rightarrow>
                       Some (s\<lparr>goroutine := WgWait, shutdown_result := Some res,
                               infos := infos s @ [''completing background tasks'']\<rparr>))
             else None
         | ServerClosed \<Rightarrow>
             if main s = ListenAndServe \<and> shutting_down s
             then Some (s\<lparr>main := ReceiveShutdownError\<rparr>)
             else None
         | ListenFails err \<Rightarrow>
             if main s = ListenAndServe \<and> \<not> shutting_down s
             then Some (s\<lparr>main := Returned (Some err)\<rparr>)
             else None
         | Handoff \<Rightarrow>
             if main s = ReceiveShutdownError
             then (case goroutine s of
                     SendError err \<Rightarrow>
                       Some (s\<lparr>main := Returned (Some err), goroutine := WgWait\<rparr>)
                   | SendNil \<Rightarrow>
                       Some (s\<lparr>main := Returned None, goroutine := Finished,
                               infos := infos s @ [''stopped server'']\<rparr>)
                   | _ \<Rightarrow> None)
             else None
         | WaitReturns \<Rightarrow>
             if goroutine s = WgWait \<and> outstanding s = 0
             then Some (s\<lparr>goroutine := SendNil, drained := True\<rparr>)
             else None
         | TaskSpawned \<Rightarrow>
             if shutdown_result s = Some None then None
             else Some (s\<lparr>outstanding := outstanding s + 1\<rparr>)
         | TaskDone \<Rightarrow>
             if 0 < outstanding s then Some (s\<lparr>outstanding := outstanding s - 1\<rparr>)
             else None))"

fun run :: "event list \<Rightarrow> serve_state \<Rightarrow> serve_state option" where
  "run [] s = Some s"
| "run (e # es) s = (case step e s of None \<Rightarrow> None | Some s' \<Rightarrow> run es s')"

subsection \<open>Predicates used in the proofs\<close>



text \<open>What holds of the two threads of \<^verbatim>\<open>serve\<close> in every state that can be reached.\<close>

definition serve_inv :: "serve_state \<Rightarrow> bool" where
  "serve_inv s \<longleftrightarrow>
     (case goroutine s of
        AwaitSignal \<Rightarrow> shutdown_result s = None \<and> \<not> drained s \<and> \<not> shutting_down s \<and>
          (main s = ListenAndServe \<or> (\<exists>e. main s = Returned (Some e)))
      | InShutdown \<Rightarrow> shutdown_result s = None \<and> \<not> drained s \<and> shutting_down s \<and>
          (main s = ListenAndServe \<or> main s = ReceiveShutdownError)
      | SendError e \<Rightarrow> shutdown_result s = Some (Some e) \<and> \<not> drained s \<and> shutting_down s \<and>
          (main s = ListenAndServe \<or> main s = ReceiveShutdownError)
      | WgWait \<Rightarrow> \<not> drained s \<and> shutting_down s \<and>
          ((shutdown_result s = Some None \<and>
              (main s = ListenAndServe \<or> main s = ReceiveShutdownError)) \<or>
           (\<exists>e. shutdown_result s = Some (Some e) \<and> main s = Returned (Some e)))
      | SendNil \<Rightarrow> shutdown_result s = Some None \<and> drained s \<and> shutting_down s \<and>
          outstanding s = 0 \<and> (main s = ListenAndServe \<or> main s = ReceiveShutdownError)
      | Finished \<Rightarrow> shutdown_result s = Some None \<and> drained s \<and> shutting_down s \<and>
          outstanding s = 0 \<and> main s = Returned None)"

text \<open>
  The events that bring a value waiting on the channel to the caller of \<^verbatim>\<open>serve\<close>.
\<close>

definition deliver :: "serve_state \<Rightarrow> event list" where
  "deliver s =
     (case main s of
        ListenAndServe \<Rightarrow> [ServerClosed, Handoff]
      | ReceiveShutdownError \<Rightarrow> [Handoff]
      | Returned r \<Rightarrow> [])"

subsection \<open>Concrete inputs\<close>

definition empty_world :: world where
  "empty_world = \<lparr>clock = 0, registry = Map.empty, heap = initial_heap, movies = Map.empty,
     calls = [], logged = [], header = Map.empty, written = [], panicked = None, wg = 0\<rparr>"

definition lookup_nothing :: "string \<Rightarrow> string \<Rightarrow> error + User" where
  "lookup_nothing scope token = Inl ErrRecordNotFound"

definition no_permissions :: "int \<Rightarrow> error + string list" where
  "no_permissions user_id = Inr []"

definition example_app :: application where
  "example_app = \<lparr>config_limiter = \<lparr>enabled = True, rps = 2, burst = 4\<rparr>,
     Users_GetForToken = lookup_nothing, Permissions_GetAllForUser = no_permissions\<rparr>"

definition request_with :: "string \<Rightarrow> request" where
  "request_with h = \<lparr>RemoteIP = ''c1'', Authorization = h, id_param = ''7'',
     json_body = Inl (Error ''body must not be empty''), ctx_user = None\<rparr>"

definition inactive_user :: User where
  "inactive_user = zero_User\<lparr>User.ID := 5, Name := ''Alice'', Email := ''alice@example.com''\<rparr>"

definition jaws_row :: movie_row where
  "jaws_row = \<lparr>created_at = 5, title = ''Jaws'', year = 1975, runtime = 124,
     genres = Some [''thriller''], version = 3\<rparr>"

definition jaws :: Movie where
  "jaws = \<lparr>ID = 7, CreatedAt = 5, Title = ''Jaws'', Year = 1975, Runtime = 124,
     Genres = Some [''thriller''], Version = 3\<rparr>"

definition alice_row :: user_row where
  "alice_row = \<lparr>u_created_at = 9, u_name = ''Alice'', u_email = ''alice@example.com'',
     u_password_hash = Some ''$2a$12$h'', u_activated = False, u_version = 1\<rparr>"

definition alice :: User where
  "alice = \<lparr>User.ID = 5, User.CreatedAt = 9, Name = ''Alice'', Email = ''alice@example.com'',
     Password = \<lparr>plaintext = None, hash = Some ''$2a$12$h''\<rparr>, Activated = True,
     User.Version = 1\<rparr>"

definition quiet_env :: db_env where
  "quiet_env = \<lparr>get_fault = None, update_fault = None, concurrent = (\<lambda>tbl. tbl),
     this_year = 2024\<rparr>"

definition retitle :: movie_input where
  "retitle = \<lparr>in_Title = Some ''Jaws 2'', in_Year = None, in_Runtime = None, in_Genres = None\<rparr>"

definition other_writer :: "movies_table \<Rightarrow> movies_table" where
  "other_writer tbl = tbl(7 \<mapsto> jaws_row\<lparr>runtime := 130, version := 4\<rparr>)"

definition mail_fails :: task where
  "mail_fails w =
     (w\<lparr>logged := logged w @ [(LevelInfo, ''sending'')]\<rparr>, Panics ''template: no such file'')"

section \<open>The rate limiter\<close>







lemma admit_sets_lastSeen:
  assumes "enabled cfg"
  shows "\<exists>c. snd (admit cfg t ip cs) ip = Some c \<and> lastSeen c = t"
  using assms by (simp add: admit_def Let_def split_def)

text \<open>
  C7. A pass of the cleanup at the time \<open>now\<close> removes an entry whose \<open>lastSeen\<close> lies
  more than three minutes back, keeps an entry, unchanged, whose \<open>lastSeen\<close> lies at
  most three minutes back, and adds none. With the limiter enabled, \<open>lastSeen\<close> is the
  time of the client's last request, admitted or refused: after a request at the time
  \<open>t\<close> the pass removes the client's entry when \<open>t\<close> lies more than three minutes back
  and keeps it otherwise.
\<close>

theorem sweep_evicts_stale_only:
  "(cs ip = Some c \<and> 3 * Minute < now - lastSeen c \<longrightarrow> sweep now cs ip = None) \<and>
   (cs ip = Some c \<and> now - lastSeen c \<le> 3 * Minute \<longrightarrow> sweep now cs ip = Some c) \<and>
   (cs ip = None \<longrightarrow> sweep now cs ip = None) \<and>
   (enabled cfg \<and> 3 * Minute < now - t \<longrightarrow> sweep now (snd (admit cfg t ip cs)) ip = None) \<and>
   (enabled cfg \<and> now - t \<le> 3 * Minute \<longrightarrow>
      sweep now (snd (admit cfg t ip cs)) ip = snd (admit cfg t ip cs) ip \<and>
      sweep now (snd (admit cfg t ip cs)) ip \<noteq> None)"
proof -
  have a: "enabled cfg \<Longrightarrow> \<exists>c. snd (admit cfg t ip cs) ip = Some c \<and> lastSeen c = t"
    by (rule admit_sets_lastSeen)
  show ?thesis
    using a by (auto simp: sweep_def)
qed

theorem sweep_evicts_stale_only_witness:
  "sweep (200 * Second)
     [''a'' \<mapsto> \<lparr>limiter = NewLimiter 2 4, lastSeen = 10 * Second\<rparr>,
      ''b'' \<mapsto> \<lparr>limiter = NewLimiter 2 4, lastSeen = 20 * Second\<rparr>] ''a'' = None \<and>
   sweep (200 * Second)
     [''a'' \<mapsto> \<lparr>limiter = NewLimiter 2 4, lastSeen = 10 * Second\<rparr>,
      ''b'' \<mapsto> \<lparr>limiter = NewLimiter 2 4, lastSeen = 20 * Second\<rparr>] ''b'' =
     Some \<lparr>limiter = NewLimiter 2 4, lastSeen = 20 * Second\<rparr> \<and>
   sweep (200 * Second)
     (snd (admit \<lparr>enabled = True, rps = 2, burst = 4\<rparr> (10 * Second) ''c1'' Map.empty)) ''c1'' =
     None \<and>
   sweep (190 * Second)
     (snd (admit \<lparr>enabled = True, rps = 2, burst = 4\<rparr> (10 * Second) ''c1'' Map.empty)) ''c1'' \<noteq>
     None"
proof -
  let ?cs = "[''a'' \<mapsto> \<lparr>limiter = NewLimiter 2 4, lastSeen = 10 * Second\<rparr>,
              ''b'' \<mapsto> \<lparr>limiter = NewLimiter 2 4, lastSeen = 20 * Second\<rparr>]"
  let ?cfg = "\<lparr>enabled = True, rps = 2, burst = 4\<rparr>"
  have a: "sweep (200 * Second) ?cs ''a'' = None"
    using sweep_evicts_stale_only [of ?cs "''a''"
        "\<lparr>limiter = NewLimiter 2 4, lastSeen = 10 * Second\<rparr>" "200 * Second" ?cfg 0]
    by (simp add: Minute_def Second_def)
  have b: "sweep (200 * Second) ?cs ''b'' =
      Some \<lparr>limiter = NewLimiter 2 4, lastSeen = 20 * Second\<rparr>"
    using sweep_evicts_stale_only [of ?cs "''b''"
        "\<lparr>limiter = NewLimiter 2 4, lastSeen = 20 * Second\<rparr>" "200 * Second" ?cfg 0]
    by (simp add: Minute_def Second_def)
  have c: "sweep (200 * Second) (snd (admit ?cfg (10 * Second) ''c1'' Map.empty)) ''c1'' = None"
    using sweep_evicts_stale_only [of Map.empty "''c1''" _ "200 * Second" ?cfg "10 * Second"]
    by (simp add: Minute_def Second_def)
  have h: "enabled ?cfg \<and> 190 * Second - 10 * Second \<le> 3 * Minute"
    by (simp add: Minute_def Second_def)
  have d: "sweep (190 * Second) (snd (admit ?cfg (10 * Second) ''c1'' Map.empty)) ''c1'' \<noteq> None"
    using sweep_evicts_stale_only [of Map.empty "''c1''" _ "190 * Second" ?cfg "10 * Second"] h
    by blast
  from a b c d show ?thesis by blast
qed

section \<open>Background tasks\<close>

text \<open>
  C8. A task is registered by \<^verbatim>\<open>background\<close>, which adds one to the counter, and run by
  the goroutine. However the task ends, by returning or by a panic, the goroutine ends
  without a panic, the value of a panic has been logged as an error, and the counter that
  the task left has been decremented once; so a task that leaves the wait group alone
  leaves the counter at its value before the registration.
\<close>

theorem background_always_deregisters:
  assumes "fn (background fn w) = (w', c)" and "0 < wg w'"
  shows "wg (background fn w) = wg w + 1 \<and>
         background_goroutine fn (background fn w) =
           ((case c of Returns \<Rightarrow> w' | Panics v \<Rightarrow> PrintError v w')\<lparr>wg := wg w' - 1\<rparr>,
            Returns) \<and>
         (wg w' = wg (background fn w) \<longrightarrow>
            wg (fst (background_goroutine fn (background fn w))) = wg w)"
  using assms
  by (auto simp: background_goroutine_def background_def wg_Done_def PrintError_def
      split: completion.splits)

theorem background_always_deregisters_witness:
  "wg (background mail_fails empty_world) = 1 \<and>
   background_goroutine mail_fails (background mail_fails empty_world) =
     (empty_world\<lparr>logged := [(LevelInfo, ''sending''), (LevelError, ''template: no such file'')]\<rparr>,
      Returns)"
  using background_always_deregisters [of mail_fails empty_world
      "empty_world\<lparr>logged := [(LevelInfo, ''sending'')], wg := 1\<rparr>"
      "Panics ''template: no such file''"]
  by (simp add: mail_fails_def empty_world_def background_def PrintError_def)

section \<open>Resolving the principal\<close>

text \<open>
  C9. A request with an empty \<^verbatim>\<open>Authorization\<close> header is passed to the next handler
  with the anonymous sentinel as its principal; nothing has been written to the response
  but the \<^verbatim>\<open>Vary\<close> header, and no lookup has been called.
\<close>

theorem empty_header_is_anonymous:
  "authenticate app next (r\<lparr>Authorization := []\<rparr>) w =
     next (contextSetUser (r\<lparr>Authorization := []\<rparr>) AnonymousUser)
       (w\<lparr>header := (header w)(''Vary'' \<mapsto> ''Authorization'')\<rparr>) \<and>
   contextGetUser (contextSetUser (r\<lparr>Authorization := []\<rparr>) AnonymousUser) = Some AnonymousUser \<and>
   IsAnonymous AnonymousUser"
proof -
  let ?r = "r\<lparr>Authorization := []\<rparr>"
  have empty: "Authorization ?r = []"
    by simp
  have passed: "authenticate app next ?r w =
      next (contextSetUser ?r AnonymousUser)
        (w\<lparr>header := (header w)(''Vary'' \<mapsto> ''Authorization'')\<rparr>)"
    using empty by (simp add: authenticate_def)
  have attached: "contextGetUser (contextSetUser ?r AnonymousUser) = Some AnonymousUser"
    by (simp add: contextSetUser_def contextGetUser_def)
  have "IsAnonymous AnonymousUser"
    by (simp add: IsAnonymous_def)
  with passed attached show ?thesis
    by simp
qed

theorem empty_header_is_anonymous_witness:
  "authenticate example_app notFoundResponse (request_with []) empty_world =
     notFoundResponse (contextSetUser (request_with []) AnonymousUser)
       (empty_world\<lparr>header := [''Vary'' \<mapsto> ''Authorization'']\<rparr>)"
  using empty_header_is_anonymous [of example_app notFoundResponse "request_with []" empty_world]
  by (simp add: request_with_def empty_world_def)

lemma token_valid_iff: "Valid (ValidateTokenPlaintext t New) \<longleftrightarrow> length t = 26"
  by (auto simp: Valid_def ValidateTokenPlaintext_def Check_def AddError_def New_def)

text \<open>
  C3, as it is stated, fails: the header \<^verbatim>\<open>Bearer\<close> followed by 26 exclamation marks has
  two parts, its second part is not made of the base32 alphabet, and still the credential
  lookup is called with it.
\<close>

theorem token_alphabet_counterexample:
  "Split (Authorization (request_with ''Bearer !!!!!!!!!!!!!!!!!!!!!!!!!!'')) (CHR '' '') =
     [''Bearer'', ''!!!!!!!!!!!!!!!!!!!!!!!!!!''] \<and>
   \<not> spec_token_shape ''!!!!!!!!!!!!!!!!!!!!!!!!!!'' \<and>
   calls (authenticate example_app notFoundResponse
            (request_with ''Bearer !!!!!!!!!!!!!!!!!!!!!!!!!!'') empty_world) =
     [GetForToken ''authentication'' ''!!!!!!!!!!!!!!!!!!!!!!!!!!'']"
  by (simp add: request_with_def spec_token_shape_def base32_alphabet_def authenticate_def
      Valid_def ValidateTokenPlaintext_def Check_def AddError_def New_def example_app_def
      lookup_nothing_def ScopeAuthentication_def empty_world_def
      invalidAuthenticationTokenResponse_def errorResponse_def writeJSON_def)

text \<open>
  C3, amended. For a header that splits at its spaces into exactly \<^verbatim>\<open>Bearer\<close> and a
  second part \<open>t\<close>: when \<open>t\<close> is not 26 bytes long the answer is the
  invalid-authentication-token response and the credential lookup is not called; when
  \<open>t\<close> is 26 bytes long, whatever its bytes are, the lookup is called with \<open>t\<close> and its
  result decides.
\<close>

theorem bearer_token_length_gate:
  assumes "Split (Authorization r) (CHR '' '') = [''Bearer'', t]"
  shows "(length t \<noteq> 26 \<longrightarrow>
            authenticate app next r w =
              invalidAuthenticationTokenResponse r
                (w\<lparr>header := (header w)(''Vary'' \<mapsto> ''Authorization'')\<rparr>)) \<and>
         (length t = 26 \<longrightarrow>
            authenticate app next r w =
              (case Users_GetForToken app ScopeAuthentication t of
                 Inl err \<Rightarrow>
                   (if err = ErrRecordNotFound
                    then invalidAuthenticationTokenResponse r
                      (w\<lparr>header := (header w)(''Vary'' \<mapsto> ''Authorization''),
                         calls := calls w @ [GetForToken ScopeAuthentication t]\<rparr>)
                    else serverErrorResponse r err
                      (w\<lparr>header := (header w)(''Vary'' \<mapsto> ''Authorization''),
                         calls := calls w @ [GetForToken ScopeAuthentication t]\<rparr>))
               | Inr user \<Rightarrow>
                   next (contextSetUser r (length (heap w)))
                     (w\<lparr>header := (header w)(''Vary'' \<mapsto> ''Authorization''),
                        calls := calls w @ [GetForToken ScopeAuthentication t],
                        heap := heap w @ [user]\<rparr>)))"
proof -
  have ne: "Authorization r \<noteq> []"
    using assms by (cases "Authorization r") auto
  show ?thesis
    using assms ne
    by (auto simp: authenticate_def token_valid_iff Let_def new_User_def split: sum.splits)
qed

theorem bearer_token_length_gate_witness:
  "authenticate example_app notFoundResponse (request_with ''Bearer MFRGGZDFMZTWQ2LK'') empty_world =
     invalidAuthenticationTokenResponse (request_with ''Bearer MFRGGZDFMZTWQ2LK'')
       (empty_world\<lparr>header := [''Vary'' \<mapsto> ''Authorization'']\<rparr>) \<and>
   authenticate example_app notFoundResponse
     (request_with ''Bearer !!!!!!!!!!!!!!!!!!!!!!!!!!'') empty_world =
     invalidAuthenticationTokenResponse (request_with ''Bearer !!!!!!!!!!!!!!!!!!!!!!!!!!'')
       (empty_world\<lparr>header := [''Vary'' \<mapsto> ''Authorization''],
          calls := [GetForToken ''authentication'' ''!!!!!!!!!!!!!!!!!!!!!!!!!!'']\<rparr>)"
  using bearer_token_length_gate [of "request_with ''Bearer MFRGGZDFMZTWQ2LK''"
      "''MFRGGZDFMZTWQ2LK''" example_app notFoundResponse empty_world]
    bearer_token_length_gate [of "request_with ''Bearer !!!!!!!!!!!!!!!!!!!!!!!!!!''"
      "''!!!!!!!!!!!!!!!!!!!!!!!!!!''" example_app notFoundResponse empty_world]
  by (simp add: request_with_def example_app_def lookup_nothing_def empty_world_def
      ScopeAuthentication_def)

section \<open>The gates\<close>

text \<open>
  C4. For a request that carries a principal, \<^verbatim>\<open>requirePermission\<close> checks in this order.
  The anonymous sentinel gets the authentication-required response, and the permission
  lookup is not called. Another principal whose account is not activated gets the
  inactive-account response, and the permission lookup is not called. Only for an activated
  principal the lookup is called, once: its failure gives the server error, a set without
  the code gives the not-permitted response, and only a set with the code reaches the
  wrapped handler.
\<close>

theorem gates_run_in_order:
  assumes "contextGetUser r = Some user"
  shows "(user = AnonymousUser \<longrightarrow>
            requirePermission app code next r w = authenticationRequiredResponse r w \<and>
            calls (requirePermission app code next r w) = calls w) \<and>
         (user \<noteq> AnonymousUser \<and> deref (heap w) user = Some u \<and> \<not> Activated u \<longrightarrow>
            requirePermission app code next r w = inactiveAccountResponse r w \<and>
            calls (requirePermission app code next r w) = calls w) \<and>
         (user \<noteq> AnonymousUser \<and> deref (heap w) user = Some u \<and> Activated u \<longrightarrow>
            requirePermission app code next r w =
              (case Permissions_GetAllForUser app (User.ID u) of
                 Inl err \<Rightarrow>
                   serverErrorResponse r err (w\<lparr>calls := calls w @ [GetAllForUser (User.ID u)]\<rparr>)
               | Inr permissions \<Rightarrow>
                   if Include permissions code
                   then next r (w\<lparr>calls := calls w @ [GetAllForUser (User.ID u)]\<rparr>)
                   else notPermittedResponse r
                     (w\<lparr>calls := calls w @ [GetAllForUser (User.ID u)]\<rparr>)))"
  using assms
  by (auto simp: requirePermission_def requireActivatedUser_def requireAuthenticatedUser_def
      IsAnonymous_def authenticationRequiredResponse_def inactiveAccountResponse_def
      errorResponse_def writeJSON_def Let_def split: sum.splits)

theorem gates_run_in_order_witness:
  "requirePermission example_app ''movies:read'' notFoundResponse
     (contextSetUser (request_with []) AnonymousUser) empty_world =
     authenticationRequiredResponse (contextSetUser (request_with []) AnonymousUser) empty_world \<and>
   calls (requirePermission example_app ''movies:read'' notFoundResponse
     (contextSetUser (request_with []) AnonymousUser) empty_world) = [] \<and>
   requirePermission example_app ''movies:read'' notFoundResponse
     (contextSetUser (request_with []) 1) (empty_world\<lparr>heap := [zero_User, inactive_user]\<rparr>) =
     inactiveAccountResponse (contextSetUser (request_with []) 1)
       (empty_world\<lparr>heap := [zero_User, inactive_user]\<rparr>) \<and>
   calls (requirePermission example_app ''movies:read'' notFoundResponse
     (contextSetUser (request_with []) 1) (empty_world\<lparr>heap := [zero_User, inactive_user]\<rparr>)) = [] \<and>
   requirePermission example_app ''movies:read'' notFoundResponse
     (contextSetUser (request_with []) 1)
     (empty_world\<lparr>heap := [zero_User, inactive_user\<lparr>Activated := True\<rparr>]\<rparr>) =
     notPermittedResponse (contextSetUser (request_with []) 1)
       (empty_world\<lparr>heap := [zero_User, inactive_user\<lparr>Activated := True\<rparr>],
          calls := [GetAllForUser 5]\<rparr>)"
  using gates_run_in_order [of "contextSetUser (request_with []) AnonymousUser" AnonymousUser
      example_app "''movies:read''" notFoundResponse empty_world zero_User]
    gates_run_in_order [of "contextSetUser (request_with []) 1" 1
      example_app "''movies:read''" notFoundResponse
      "empty_world\<lparr>heap := [zero_User, inactive_user]\<rparr>" inactive_user]
    gates_run_in_order [of "contextSetUser (request_with []) 1" 1
      example_app "''movies:read''" notFoundResponse
      "empty_world\<lparr>heap := [zero_User, inactive_user\<lparr>Activated := True\<rparr>]\<rparr>"
      "inactive_user\<lparr>Activated := True\<rparr>"]
  by (simp add: contextSetUser_def contextGetUser_def AnonymousUser_def empty_world_def deref_def
      inactive_user_def zero_User_def example_app_def no_permissions_def
      authenticationRequiredResponse_def inactiveAccountResponse_def errorResponse_def
      writeJSON_def)



section \<open>Conditional updates\<close>

lemma movie_update_success:
  assumes "MovieModel_Update fault movie tbl = (Inr movie', tbl')"
  shows "\<exists>row. tbl (Movie.ID movie) = Some row \<and> version row = Movie.Version movie \<and>
           movie' = movie\<lparr>Movie.Version := Movie.Version movie + 1\<rparr> \<and>
           tbl' = tbl(Movie.ID movie \<mapsto>
                    row\<lparr>title := Title movie, year := Year movie, runtime := Runtime movie,
                        genres := Genres movie, version := version row + 1\<rparr>)"
  using assms
  by (auto simp: MovieModel_Update_def update_movies_def Let_def
      split: option.splits if_splits sum.splits prod.splits)

lemma movie_update_mismatch:
  assumes "tbl (Movie.ID movie) = Some row" and "version row \<noteq> Movie.Version movie"
  shows "MovieModel_Update fault movie tbl =
           (Inl (case fault of None \<Rightarrow> ErrEditConflict | Some msg \<Rightarrow> Error msg), tbl)"
  using assms
  by (auto simp: MovieModel_Update_def update_movies_def Let_def split: option.splits)

lemma user_update_success:
  assumes "UserModel_Update fault user tbl = (Inr user', tbl')"
  shows "\<exists>row. tbl (User.ID user) = Some row \<and> u_version row = User.Version user \<and>
           user' = user\<lparr>User.Version := User.Version user + 1\<rparr> \<and>
           tbl' = tbl(User.ID user \<mapsto>
                    row\<lparr>u_name := Name user, u_email := Email user,
                        u_password_hash := hash (Password user),
                        u_activated := Activated user, u_version := u_version row + 1\<rparr>)"
  using assms
  by (auto simp: UserModel_Update_def update_users_def Let_def
      split: option.splits if_splits sum.splits prod.splits)

lemma user_update_mismatch:
  assumes "tbl (User.ID user) = Some row" and "u_version row \<noteq> User.Version user"
  shows "\<exists>err. UserModel_Update fault user tbl = (Inl err, tbl)"
  using assms
  by (auto simp: UserModel_Update_def update_users_def Let_def split: option.splits)

lemma movie_update_match:
  assumes "tbl (Movie.ID movie) = Some row" and "version row = Movie.Version movie"
    and "fits32 (Movie.Version movie + 1)"
  shows "MovieModel_Update None movie tbl =
           (Inr (movie\<lparr>Movie.Version := Movie.Version movie + 1\<rparr>),
            tbl(Movie.ID movie \<mapsto>
              row\<lparr>title := Title movie, year := Year movie, runtime := Runtime movie,
                  genres := Genres movie, version := Movie.Version movie + 1\<rparr>))"
  using assms by (simp add: MovieModel_Update_def update_movies_def)

lemma user_update_match:
  assumes "tbl (User.ID user) = Some row" and "u_version row = User.Version user"
  shows "UserModel_Update None user tbl =
           (Inr (user\<lparr>User.Version := User.Version user + 1\<rparr>),
            tbl(User.ID user \<mapsto>
              row\<lparr>u_name := Name user, u_email := Email user,
                  u_password_hash := hash (Password user),
                  u_activated := Activated user, u_version := User.Version user + 1\<rparr>))"
  using assms by (simp add: UserModel_Update_def update_users_def)

text \<open>
  C2. For a movie and for a user alike: when the conditional update succeeds, the stored
  version was the caller's version, the stored version afterwards is that version plus
  one, and the struct given back to the caller carries the same new version. When the row
  is stored with another version than the caller's, the update returns an error and the
  table is as before. A row stored with the caller's version is updated when the
  statement runs (for a movie, when the new version fits the \<^verbatim>\<open>int32\<close> field).
\<close>

theorem conditional_update_increments_version:
  "(MovieModel_Update fault movie mtbl = (Inr movie', mtbl') \<longrightarrow>
      map_option version (mtbl (Movie.ID movie)) = Some (Movie.Version movie) \<and>
      map_option version (mtbl' (Movie.ID movie)) = Some (Movie.Version movie + 1) \<and>
      Movie.Version movie' = Movie.Version movie + 1) \<and>
   (mtbl (Movie.ID movie) = Some mrow \<and> version mrow \<noteq> Movie.Version movie \<longrightarrow>
      (\<exists>err. MovieModel_Update fault movie mtbl = (Inl err, mtbl))) \<and>
   (mtbl (Movie.ID movie) = Some mrow \<and> version mrow = Movie.Version movie \<and>
    fits32 (Movie.Version movie + 1) \<longrightarrow>
      (\<exists>mtbl''. MovieModel_Update None movie mtbl =
         (Inr (movie\<lparr>Movie.Version := Movie.Version movie + 1\<rparr>), mtbl''))) \<and>
   (UserModel_Update fault user utbl = (Inr user', utbl') \<longrightarrow>
      map_option u_version (utbl (User.ID user)) = Some (User.Version user) \<and>
      map_option u_version (utbl' (User.ID user)) = Some (User.Version user + 1) \<and>
      User.Version user' = User.Version user + 1) \<and>
   (utbl (User.ID user) = Some urow \<and> u_version urow \<noteq> User.Version user \<longrightarrow>
      (\<exists>err. UserModel_Update fault user utbl = (Inl err, utbl))) \<and>
   (utbl (User.ID user) = Some urow \<and> u_version urow = User.Version user \<longrightarrow>
      (\<exists>utbl''. UserModel_Update None user utbl =
         (Inr (user\<lparr>User.Version := User.Version user + 1\<rparr>), utbl'')))"
proof (intro conjI impI)
  assume a: "MovieModel_Update fault movie mtbl = (Inr movie', mtbl')"
  from movie_update_success [OF a]
  show "map_option version (mtbl (Movie.ID movie)) = Some (Movie.Version movie)"
    and "map_option version (mtbl' (Movie.ID movie)) = Some (Movie.Version movie + 1)"
    and "Movie.Version movie' = Movie.Version movie + 1"
    by auto
next
  assume "mtbl (Movie.ID movie) = Some mrow \<and> version mrow \<noteq> Movie.Version movie"
  then show "\<exists>err. MovieModel_Update fault movie mtbl = (Inl err, mtbl)"
    using movie_update_mismatch [of mtbl movie mrow fault] by blast
next
  assume "mtbl (Movie.ID movie) = Some mrow \<and> version mrow = Movie.Version movie \<and>
    fits32 (Movie.Version movie + 1)"
  then show "\<exists>mtbl''. MovieModel_Update None movie mtbl =
         (Inr (movie\<lparr>Movie.Version := Movie.Version movie + 1\<rparr>), mtbl'')"
    using movie_update_match [of mtbl movie mrow] by blast
next
  assume a: "UserModel_Update fault user utbl = (Inr user', utbl')"
  from user_update_success [OF a]
  show "map_option u_version (utbl (User.ID user)) = Some (User.Version user)"
    and "map_option u_version (utbl' (User.ID user)) = Some (User.Version user + 1)"
    and "User.Version user' = User.Version user + 1"
    by auto
next
  assume "utbl (User.ID user) = Some urow \<and> u_version urow \<noteq> User.Version user"
  then show "\<exists>err. UserModel_Update fault user utbl = (Inl err, utbl)"
    using user_update_mismatch [of utbl user urow fault] by blast
next
  assume "utbl (User.ID user) = Some urow \<and> u_version urow = User.Version user"
  then show "\<exists>utbl''. UserModel_Update None user utbl =
         (Inr (user\<lparr>User.Version := User.Version user + 1\<rparr>), utbl'')"
    using user_update_match [of utbl user urow] by blast
qed

theorem conditional_update_increments_version_witness:
  "MovieModel_Update None jaws [7 \<mapsto> jaws_row] =
     (Inr (jaws\<lparr>Movie.Version := 4\<rparr>), [7 \<mapsto> jaws_row\<lparr>version := 4\<rparr>]) \<and>
   map_option version ([7 \<mapsto> jaws_row\<lparr>version := 4\<rparr>] (Movie.ID jaws)) = Some (Movie.Version jaws + 1) \<and>
   (\<exists>err. MovieModel_Update None (jaws\<lparr>Movie.Version := 2\<rparr>) [7 \<mapsto> jaws_row] =
      (Inl err, [7 \<mapsto> jaws_row])) \<and>
   UserModel_Update None alice [5 \<mapsto> alice_row] =
     (Inr (alice\<lparr>User.Version := 2\<rparr>),
      [5 \<mapsto> alice_row\<lparr>u_activated := True, u_version := 2\<rparr>]) \<and>
   map_option u_version ([5 \<mapsto> alice_row\<lparr>u_activated := True, u_version := 2\<rparr>] (User.ID alice)) =
     Some (User.Version alice + 1) \<and>
   (\<exists>err. UserModel_Update None (alice\<lparr>User.Version := 7\<rparr>) [5 \<mapsto> alice_row] =
      (Inl err, [5 \<mapsto> alice_row]))"
proof -
  have m: "MovieModel_Update None jaws [7 \<mapsto> jaws_row] =
     (Inr (jaws\<lparr>Movie.Version := 4\<rparr>), [7 \<mapsto> jaws_row\<lparr>version := 4\<rparr>])"
    by (simp add: MovieModel_Update_def update_movies_def jaws_def jaws_row_def fits32_def)
  have u: "UserModel_Update None alice [5 \<mapsto> alice_row] =
     (Inr (alice\<lparr>User.Version := 2\<rparr>),
      [5 \<mapsto> alice_row\<lparr>u_activated := True, u_version := 2\<rparr>])"
    by (simp add: UserModel_Update_def update_users_def alice_def alice_row_def)
  have m2: "[7 \<mapsto> jaws_row] (Movie.ID (jaws\<lparr>Movie.Version := 2\<rparr>)) = Some jaws_row \<and>
     version jaws_row \<noteq> Movie.Version (jaws\<lparr>Movie.Version := 2\<rparr>)"
    by (simp add: jaws_def jaws_row_def)
  have u2: "[5 \<mapsto> alice_row] (User.ID (alice\<lparr>User.Version := 7\<rparr>)) = Some alice_row \<and>
     u_version alice_row \<noteq> User.Version (alice\<lparr>User.Version := 7\<rparr>)"
    by (simp add: alice_def alice_row_def)
  show ?thesis
    using m u m2 u2
      conditional_update_increments_version [of None jaws "[7 \<mapsto> jaws_row]"
        "jaws\<lparr>Movie.Version := 4\<rparr>" "[7 \<mapsto> jaws_row\<lparr>version := 4\<rparr>]" jaws_row
        alice "[5 \<mapsto> alice_row]" "alice\<lparr>User.Version := 2\<rparr>"
        "[5 \<mapsto> alice_row\<lparr>u_activated := True, u_version := 2\<rparr>]" alice_row]
      conditional_update_increments_version [of None "jaws\<lparr>Movie.Version := 2\<rparr>" "[7 \<mapsto> jaws_row]"
        _ _ jaws_row "alice\<lparr>User.Version := 7\<rparr>" "[5 \<mapsto> alice_row]" _ _ alice_row]
    by blast
qed

lemma movie_update_never_not_found:
  "fst (MovieModel_Update fault movie tbl) \<noteq> Inl ErrRecordNotFound"
  by (auto simp: MovieModel_Update_def update_movies_def scan_range_error_def
      split: option.splits)

lemma movie_update_no_row:
  assumes "map_option version (tbl (Movie.ID movie)) \<noteq> Some (Movie.Version movie)"
  shows "MovieModel_Update None movie tbl = (Inl ErrEditConflict, tbl)"
  using assms by (auto simp: MovieModel_Update_def update_movies_def split: option.splits)

lemma apply_input_keeps:
  "Movie.ID (apply_input input movie) = Movie.ID movie"
  "Movie.Version (apply_input input movie) = Movie.Version movie"
  by (auto simp: apply_input_def Let_def split: option.splits)

lemma movie_get_found:
  assumes "MovieModel_Get fault tbl mid = Inr movie"
  shows "Movie.ID movie = mid \<and> map_option version (tbl mid) = Some (Movie.Version movie)"
  using assms by (auto simp: MovieModel_Get_def split: if_splits option.splits)

lemma handler_not_found:
  assumes "readIDParam r = Inr mid" and "get_fault env = None" and "movies w mid = None"
  shows "updateMovieHandler env r w = notFoundResponse r w"
  using assms by (simp add: updateMovieHandler_def MovieModel_Get_def)

lemma handler_conflict:
  assumes "readIDParam r = Inr mid"
    and "MovieModel_Get (get_fault env) (movies w) mid = Inr movie0"
    and "json_body r = Inr input"
    and "Valid (ValidateMovie (this_year env) (apply_input input movie0) New)"
    and "update_fault env = None"
    and "map_option version (concurrent env (movies w) mid) \<noteq> Some (Movie.Version movie0)"
  shows "updateMovieHandler env r w =
           editConflictResponse r (w\<lparr>movies := concurrent env (movies w)\<rparr>)"
proof -
  from movie_get_found [OF assms(2)] have i: "Movie.ID movie0 = mid" by simp
  have "MovieModel_Update None (apply_input input movie0) (concurrent env (movies w)) =
      (Inl ErrEditConflict, concurrent env (movies w))"
    using assms(6) by (intro movie_update_no_row) (simp only: apply_input_keeps i, simp)
  then show ?thesis
    using assms(1-5) by (simp add: updateMovieHandler_def Let_def)
qed

lemma w_get: "MovieModel_Get None [7 \<mapsto> jaws_row] 7 = Inr jaws"
  by (simp add: MovieModel_Get_def jaws_row_def jaws_def fits32_def)

lemma w_valid: "Valid (ValidateMovie 2024 (apply_input retitle jaws) New)"
  by (simp add: ValidateMovie_def apply_input_def retitle_def jaws_def Check_def Valid_def New_def Unique_def)

lemma w_id: "readIDParam (request_with []) = Inr 7"
  by (simp add: readIDParam_def request_with_def ParseInt_def)

text \<open>
  C5. When the row of the id is stored with another version than the expected one, the
  update of a movie returns \<^verbatim>\<open>ErrEditConflict\<close> and leaves the table alone. The update
  never returns \<^verbatim>\<open>ErrRecordNotFound\<close>. In the handler an id that has no row is answered
  with the not-found response by the read that comes first, and no update is issued; a row
  that another request changes or deletes between the handler's read and its write is
  answered with the edit-conflict response.
\<close>

theorem conflict_and_not_found_are_told_apart:
  "(tbl (Movie.ID movie) = Some row \<and> version row \<noteq> Movie.Version movie \<longrightarrow>
      MovieModel_Update None movie tbl = (Inl ErrEditConflict, tbl)) \<and>
   fst (MovieModel_Update fault movie tbl) \<noteq> Inl ErrRecordNotFound \<and>
   (readIDParam r = Inr mid \<and> get_fault env = None \<and> movies w mid = None \<longrightarrow>
      updateMovieHandler env r w = notFoundResponse r w) \<and>
   (readIDParam r = Inr mid \<and> MovieModel_Get (get_fault env) (movies w) mid = Inr movie0 \<and>
    json_body r = Inr input \<and>
    Valid (ValidateMovie (this_year env) (apply_input input movie0) New) \<and>
    update_fault env = None \<and>
    map_option version (concurrent env (movies w) mid) \<noteq> Some (Movie.Version movie0) \<longrightarrow>
      updateMovieHandler env r w =
        editConflictResponse r (w\<lparr>movies := concurrent env (movies w)\<rparr>))"
proof (intro conjI impI)
  assume "tbl (Movie.ID movie) = Some row \<and> version row \<noteq> Movie.Version movie"
  then show "MovieModel_Update None movie tbl = (Inl ErrEditConflict, tbl)"
    by (intro movie_update_no_row) auto
next
  show "fst (MovieModel_Update fault movie tbl) \<noteq> Inl ErrRecordNotFound"
    by (rule movie_update_never_not_found)
next
  assume "readIDParam r = Inr mid \<and> get_fault env = None \<and> movies w mid = None"
  then show "updateMovieHandler env r w = notFoundResponse r w"
    by (intro handler_not_found [of r mid]) auto
next
  assume "readIDParam r = Inr mid \<and> MovieModel_Get (get_fault env) (movies w) mid = Inr movie0 \<and>
    json_body r = Inr input \<and>
    Valid (ValidateMovie (this_year env) (apply_input input movie0) New) \<and>
    update_fault env = None \<and>
    map_option version (concurrent env (movies w) mid) \<noteq> Some (Movie.Version movie0)"
  then show "updateMovieHandler env r w =
        editConflictResponse r (w\<lparr>movies := concurrent env (movies w)\<rparr>)"
    by (intro handler_conflict [of r mid env w movie0 input]) auto
qed

theorem conflict_and_not_found_are_told_apart_witness:
  "MovieModel_Update None (jaws\<lparr>Movie.Version := 2\<rparr>) [7 \<mapsto> jaws_row] =
     (Inl ErrEditConflict, [7 \<mapsto> jaws_row]) \<and>
   updateMovieHandler quiet_env (request_with []) empty_world =
     notFoundResponse (request_with []) empty_world \<and>
   updateMovieHandler (quiet_env\<lparr>concurrent := other_writer\<rparr>)
     ((request_with [])\<lparr>json_body := Inr retitle\<rparr>) (empty_world\<lparr>movies := [7 \<mapsto> jaws_row]\<rparr>) =
     editConflictResponse ((request_with [])\<lparr>json_body := Inr retitle\<rparr>)
       (empty_world\<lparr>movies := [7 \<mapsto> jaws_row\<lparr>runtime := 130, version := 4\<rparr>]\<rparr>)"
proof -
  have r: "readIDParam ((request_with [])\<lparr>json_body := Inr retitle\<rparr>) = Inr 7"
    by (simp add: readIDParam_def request_with_def ParseInt_def)
  have o: "other_writer [7 \<mapsto> jaws_row] = [7 \<mapsto> jaws_row\<lparr>runtime := 130, version := 4\<rparr>]"
    by (simp add: other_writer_def)
  show ?thesis
    using conflict_and_not_found_are_told_apart [of "[7 \<mapsto> jaws_row]" "jaws\<lparr>Movie.Version := 2\<rparr>"
        jaws_row None "request_with []" 7 quiet_env empty_world jaws retitle]
      conflict_and_not_found_are_told_apart [of "[7 \<mapsto> jaws_row]" "jaws\<lparr>Movie.Version := 2\<rparr>"
        jaws_row None "(request_with [])\<lparr>json_body := Inr retitle\<rparr>" 7
        "quiet_env\<lparr>concurrent := other_writer\<rparr>" "empty_world\<lparr>movies := [7 \<mapsto> jaws_row]\<rparr>"
        jaws retitle]
      w_get w_valid w_id r o
    by (simp add: quiet_env_def empty_world_def jaws_def jaws_row_def)
qed

section \<open>Shutdown\<close>

lemma serve_inv_init: "serve_inv (serve_init n)"
  by (simp add: serve_inv_def serve_init_def)

lemma serve_inv_step:
  assumes "serve_inv s" and "step e s = Some s'"
  shows "serve_inv s'"
proof (cases "main s")
  case (Returned r)
  with assms(2) show ?thesis by (simp add: step_def)
next
  case ListenAndServe
  with assms show ?thesis
    by (cases e; cases "goroutine s")
      (auto simp: step_def serve_inv_def split: if_splits option.splits)
next
  case ReceiveShutdownError
  with assms show ?thesis
    by (cases e; cases "goroutine s")
      (auto simp: step_def serve_inv_def split: if_splits option.splits)
qed

lemma serve_inv_run:
  "serve_inv s \<Longrightarrow> run es s = Some s' \<Longrightarrow> serve_inv s'"
proof (induction es arbitrary: s)
  case Nil
  then show ?case by simp
next
  case (Cons e es)
  then show ?case
    by (auto split: option.splits dest: serve_inv_step)
qed

lemma deliver_error:
  assumes "serve_inv s" and "shutdown_result s = Some (Some e)"
  shows "map_option main (run (deliver s) s) = Some (Returned (Some e))"
  using assms
  by (cases "goroutine s"; cases "main s")
     (auto simp: serve_inv_def deliver_def step_def)

text \<open>
  C1, as it is stated, fails: with one background task outstanding, the signal arrives,
  \<^verbatim>\<open>Shutdown\<close> returns an error, and the error is handed to \<^verbatim>\<open>serve\<close>, which returns it
  while the task is still outstanding and before \<^verbatim>\<open>app.wg.Wait()\<close> has returned.
\<close>

theorem serve_returns_before_drain:
  "map_option main (run [Signal, ServerClosed,
       ShutdownReturns (Some (Error ''context deadline exceeded'')), Handoff] (serve_init 1)) =
     Some (Returned (Some (Error ''context deadline exceeded''))) \<and>
   map_option outstanding (run [Signal, ServerClosed,
       ShutdownReturns (Some (Error ''context deadline exceeded'')), Handoff] (serve_init 1)) =
     Some 1 \<and>
   map_option drained (run [Signal, ServerClosed,
       ShutdownReturns (Some (Error ''context deadline exceeded'')), Handoff] (serve_init 1)) =
     Some False"
  by (simp add: step_def serve_init_def)

text \<open>
  C1, amended. In every state that \<^verbatim>\<open>serve\<close> can reach: an error of \<^verbatim>\<open>Shutdown\<close> is not
  dropped, the next steps of the two threads hand it to \<^verbatim>\<open>serve\<close>, which returns it.
  Whenever \<^verbatim>\<open>serve\<close> has returned: an error of \<^verbatim>\<open>Shutdown\<close> is what it returned, and it
  was returned before the wait for the background tasks had returned; and \<^verbatim>\<open>serve\<close>
  returned \<^verbatim>\<open>nil\<close> only when \<^verbatim>\<open>Shutdown\<close> returned without error, the wait has returned
  and no background task is outstanding.
\<close>

theorem serve_result:
  assumes "run es (serve_init n) = Some s"
  shows "(\<forall>e. shutdown_result s = Some (Some e) \<longrightarrow>
            map_option main (run (deliver s) s) = Some (Returned (Some e))) \<and>
         (\<forall>r. main s = Returned r \<longrightarrow>
            (\<forall>e. shutdown_result s = Some (Some e) \<longrightarrow> r = Some e \<and> \<not> drained s) \<and>
            (r = None \<longrightarrow> shutdown_result s = Some None \<and> drained s \<and> outstanding s = 0))"
proof -
  have i: "serve_inv s"
    using serve_inv_run [OF serve_inv_init assms] .
  have "\<forall>r. main s = Returned r \<longrightarrow>
            (\<forall>e. shutdown_result s = Some (Some e) \<longrightarrow> r = Some e \<and> \<not> drained s) \<and>
            (r = None \<longrightarrow> shutdown_result s = Some None \<and> drained s \<and> outstanding s = 0)"
    using i by (cases "goroutine s") (auto simp: serve_inv_def)
  with deliver_error [OF i] show ?thesis by blast
qed

theorem serve_result_witness:
  "run [TaskSpawned, Signal, ServerClosed, ShutdownReturns None, TaskDone, TaskDone,
        WaitReturns, Handoff] (serve_init 1) =
     Some \<lparr>main = Returned None, goroutine = Finished, outstanding = 0, shutting_down = True,
        shutdown_result = Some None, drained = True,
        infos = [''starting server'', ''caught signal'', ''completing background tasks'',
          ''stopped server'']\<rparr> \<and>
   run [Signal, ShutdownReturns (Some (Error ''context deadline exceeded''))] (serve_init 2) =
     Some \<lparr>main = ListenAndServe, goroutine = SendError (Error ''context deadline exceeded''),
        outstanding = 2, shutting_down = True,
        shutdown_result = Some (Some (Error ''context deadline exceeded'')), drained = False,
        infos = [''starting server'', ''caught signal'']\<rparr> \<and>
   map_option main
     (run (deliver \<lparr>main = ListenAndServe, goroutine = SendError (Error ''context deadline exceeded''),
        outstanding = 2, shutting_down = True,
        shutdown_result = Some (Some (Error ''context deadline exceeded'')), drained = False,
        infos = [''starting server'', ''caught signal'']\<rparr>)
      \<lparr>main = ListenAndServe, goroutine = SendError (Error ''context deadline exceeded''),
        outstanding = 2, shutting_down = True,
        shutdown_result = Some (Some (Error ''context deadline exceeded'')), drained = False,
        infos = [''starting server'', ''caught signal'']\<rparr>) =
     Some (Returned (Some (Error ''context deadline exceeded'')))"
proof -
  have a: "run [TaskSpawned, Signal, ServerClosed, ShutdownReturns None, TaskDone, TaskDone,
        WaitReturns, Handoff] (serve_init 1) =
     Some \<lparr>main = Returned None, goroutine = Finished, outstanding = 0, shutting_down = True,
        shutdown_result = Some None, drained = True,
        infos = [''starting server'', ''caught signal'', ''completing background tasks'',
          ''stopped server'']\<rparr>"
    by (simp add: step_def serve_init_def)
  have b: "run [Signal, ShutdownReturns (Some (Error ''context deadline exceeded''))] (serve_init 2) =
     Some \<lparr>main = ListenAndServe, goroutine = SendError (Error ''context deadline exceeded''),
        outstanding = 2, shutting_down = True,
        shutdown_result = Some (Some (Error ''context deadline exceeded'')), drained = False,
        infos = [''starting server'', ''caught signal'']\<rparr>"
    by (simp add: step_def serve_init_def)
  show ?thesis
    using a b serve_result [OF a] serve_result [OF b] by simp
qed

end
